theory Spec2Isabelle
  imports Main "HOL-Library.Word" "HOL-Library.Char_ord" "HOL-Library.List_Lexorder"
begin

section \<open>Values, errors and outcomes\<close>

text \<open>
  A Go \<open>error\<close> is modelled by the datatype below. \<open>Errorf msg\<close> is an error the
  package builds itself with \<open>fmt.Errorf\<close>; the message is kept, since it is all a
  caller can tell such errors apart by. The other constructors are the errors of the
  libraries the package calls: \<open>sql.ErrNoRows\<close>, the \<open>destination not a pointer\<close>
  error of \<open>Scan\<close>, an error of the database driver (a constraint violation or a lost
  connection), \<open>bcrypt.ErrPasswordTooLong\<close>, a runtime index error, and any other
  library error, tagged by its text.

  A function of type \<open>error\<close> returns \<open>error option\<close> (\<open>None\<close> is \<open>nil\<close>); a function
  of type \<open>(T, error)\<close> returns \<open>error + T\<close>.
\<close>

datatype error =
    Errorf string
  | ErrNoRows
  | ErrDestinationNotAPointer
  | ErrDriver
  | ErrPasswordTooLong
  | ErrIndexOutOfRange
  | ErrLibrary string

text \<open>
  A call either returns to its caller or ends the process (a panic that nothing
  recovers, or a fatal log call). \<open>sys.Must\<close> of the \<open>go-sys\<close> package turns an error
  result into the second.
\<close>

datatype 'a outcome = Fatal error | Returns 'a

fun Must :: "error + 'a \<Rightarrow> 'a outcome" where
  "Must (Inl err) = Fatal err"
| "Must (Inr v) = Returns v"

section \<open>Validators\<close>

definition MIN_PASSWORD_LENGTH :: nat where
  "MIN_PASSWORD_LENGTH = 8"

definition MIN_NAME_LENGTH :: nat where
  "MIN_NAME_LENGTH = 4"

definition STANDARD_ROLE :: string where
  "STANDARD_ROLE = ''Standard''"

text \<open>
  The three regular expressions are anchored character classes, so a string matches
  when each of its bytes is in the class (and, for \<open>+\<close>, when it is not empty). A byte
  above 127 is in no class. \<open>\w\<close> is \<open>[0-9A-Za-z_]\<close> and \<open>\d\<close> is \<open>[0-9]\<close>.
\<close>

definition letters :: string where
  "letters = ''ABCDEFGHIJKLMNOPQRSTUVWXYZabcdefghijklmnopqrstuvwxyz''"

definition digits :: string where
  "digits = ''0123456789''"

definition PASSWORD_REGEX :: "string \<Rightarrow> bool" where
  "PASSWORD_REGEX s = list_all (\<lambda>c. c \<in> set (letters @ digits @ ''@$!%*#?&.~^-'')) s"

definition USERNAME_REGEX :: "string \<Rightarrow> bool" where
  "USERNAME_REGEX s = (s \<noteq> [] \<and> list_all (\<lambda>c. c \<in> set (letters @ digits @ ''_-.@'')) s)"

definition NAME_REGEX :: "string \<Rightarrow> bool" where
  "NAME_REGEX s = (s \<noteq> [] \<and> list_all (\<lambda>c. c \<in> set (letters @ digits @ ''_- '')) s)"

definition CheckPassword :: "string \<Rightarrow> error option" where
  "CheckPassword password =
     (if password \<noteq> [] \<and> length password < MIN_PASSWORD_LENGTH
      then Some (Errorf ''password must be at least 8 characters'')
      else if \<not> PASSWORD_REGEX password then Some (Errorf ''invalid password'')
      else None)"

definition CheckUsername :: "string \<Rightarrow> error option" where
  "CheckUsername username =
     (if length username < MIN_NAME_LENGTH
      then Some (Errorf ''username must be at least 4 characters'')
      else if \<not> USERNAME_REGEX username then Some (Errorf ''invalid username'')
      else None)"

definition CheckName :: "string \<Rightarrow> error option" where
  "CheckName name =
     (if length name < MIN_NAME_LENGTH
      then Some (Errorf ''name must be at least 4 characters'')
      else if \<not> NAME_REGEX name then Some (Errorf ''invalid name'')
      else None)"

section \<open>The environment\<close>

text \<open>
  The package calls three things whose code is not its own: \<open>mail.ParseAddress\<close>,
  the two \<open>bcrypt\<close> functions, and the SQLite store with its schema. They are
  parameters of the model, collected in one record.
  \<^item> \<open>ParseAddress\<close> gives the \<open>Address\<close> field of the parsed address, or the
    parser's error.
  \<^item> \<open>GenerateFromPassword salt password\<close> is \<open>bcrypt.GenerateFromPassword\<close> at the
    default cost, with the random salt it draws made an argument.
  \<^item> \<open>CompareHashAndPassword hash password\<close> is \<open>None\<close> when the password matches.
  \<^item> The \<open>INSERT\<close> of a user names six columns; \<open>default_email_verified\<close>,
    \<open>default_can_signin\<close> and \<open>default_updated_on\<close> are what the schema gives the
    other three. No \<open>UPDATE\<close> statement of the package writes \<open>updated_on\<close>;
    \<open>updated_on_after_update old\<close> is the value the store leaves in that column
    when a row is updated (the old value when the schema has no hook on updates, the
    clock's reading when it has one).
\<close>

record env =
  ParseAddress :: "string \<Rightarrow> error + string"
  GenerateFromPassword :: "string \<Rightarrow> string \<Rightarrow> error + string"
  CompareHashAndPassword :: "string \<Rightarrow> string \<Rightarrow> error option"
  default_email_verified :: bool
  default_can_signin :: bool
  default_updated_on :: "64 word"
  updated_on_after_update :: "64 word \<Rightarrow> 64 word"



section \<open>Accounts and the credential codec\<close>

record AuthUser =
  Uuid :: string
  FirstName :: string
  LastName :: string
  Username :: string
  Email :: string
  HashedPassword :: string
  EmailVerified :: bool
  CanSignIn :: bool
  Updated :: "64 word"

definition NewAuthUser ::
  "string \<Rightarrow> string \<Rightarrow> string \<Rightarrow> string \<Rightarrow> string \<Rightarrow> string \<Rightarrow> bool \<Rightarrow> bool \<Rightarrow> 64 word \<Rightarrow> AuthUser"
where
  "NewAuthUser uuid firstName lastName userName email hashedPassword isVerified canSignIn updated =
     \<lparr>Uuid = uuid, FirstName = firstName, LastName = lastName, Username = userName,
      Email = email, HashedPassword = hashedPassword, EmailVerified = isVerified,
      CanSignIn = canSignIn, Updated = updated\<rparr>"


definition HashPassword :: "env \<Rightarrow> string \<Rightarrow> string \<Rightarrow> string outcome" where
  "HashPassword e salt password = Must (GenerateFromPassword e salt password)"





section \<open>The store\<close>

text \<open>
  The tables the package reads and writes, with the columns its statements name.
  A table is the list of its rows, in the order the store scans them.
  \<open>reachable\<close> is false when the store cannot be reached; every statement then
  fails with the driver's error.
\<close>

record users_row =
  users_uuid :: string
  users_first_name :: string
  users_last_name :: string
  users_username :: string
  users_email :: string
  users_password :: string
  users_email_verified :: bool
  users_can_signin :: bool
  users_updated_on :: "64 word"

record roles_row =
  roles_uuid :: string
  roles_name :: string

record user_roles_row =
  user_roles_user_uuid :: string
  user_roles_role_uuid :: string

record database =
  reachable :: bool
  users :: "users_row list"
  roles :: "roles_row list"
  user_roles :: "user_roles_row list"

text \<open>
  \<open>QueryRow\<close> runs a \<open>SELECT ... WHERE\<close> and keeps the first row that matches, if any.
  \<open>Scan\<close> is \<open>(*sql.Row).Scan\<close>: it reports the query's error, then
  \<open>sql.ErrNoRows\<close> when no row matched, then copies the columns through the
  destinations, which fails unless every destination is a pointer.
\<close>

datatype dest = ByPointer | ByValue

definition QueryRow :: "database \<Rightarrow> 'r list \<Rightarrow> ('r \<Rightarrow> bool) \<Rightarrow> error + 'r option" where
  "QueryRow db tbl sel = (if reachable db then Inr (find sel tbl) else Inl ErrDriver)"

definition Scan :: "error + 'r option \<Rightarrow> dest list \<Rightarrow> error + 'r" where
  "Scan row dests =
     (case row of
        Inl err \<Rightarrow> Inl err
      | Inr None \<Rightarrow> Inl ErrNoRows
      | Inr (Some r) \<Rightarrow>
          if list_all (\<lambda>d. d = ByPointer) dests then Inr r else Inl ErrDestinationNotAPointer)"

text \<open>
  Modelled from the spec: the schema is not among the sources. Section 6 of the
  specification gives \<open>accounts(id PK, username UNIQUE, email UNIQUE, ...)\<close>, so
  \<open>CREATE_USER_SQL\<close> is refused when the new row's uuid, username or email is already
  in the table; otherwise the row is added with the six values of the statement and
  the schema's defaults for the other columns.
\<close>

definition exec_CREATE_USER_SQL ::
  "env \<Rightarrow> database \<Rightarrow> string \<Rightarrow> string \<Rightarrow> string \<Rightarrow> string \<Rightarrow> string \<Rightarrow> string \<Rightarrow> error + database"
where
  "exec_CREATE_USER_SQL e db uuid first_name last_name username email password =
     (if \<not> reachable db then Inl ErrDriver
      else if list_ex (\<lambda>r. users_uuid r = uuid \<or> users_username r = username \<or> users_email r = email)
                (users db)
      then Inl ErrDriver
      else Inr (db\<lparr>users := users db @
             [\<lparr>users_uuid = uuid, users_first_name = first_name, users_last_name = last_name,
               users_username = username, users_email = email, users_password = password,
               users_email_verified = default_email_verified e,
               users_can_signin = default_can_signin e,
               users_updated_on = default_updated_on e\<rparr>]\<rparr>))"

text \<open>
  \<open>SET_PASSWORD_SQL\<close> is \<open>UPDATE users SET password = ? WHERE users.uuid = ?\<close>: in
  every row with that uuid the password is replaced, and \<open>updated_on\<close> becomes what
  the store makes of it on an update. A statement that matches no row succeeds.
\<close>

definition exec_SET_PASSWORD_SQL :: "env \<Rightarrow> database \<Rightarrow> string \<Rightarrow> string \<Rightarrow> error + database" where
  "exec_SET_PASSWORD_SQL e db password uuid =
     (if \<not> reachable db then Inl ErrDriver
      else Inr (db\<lparr>users :=
             map (\<lambda>r. if users_uuid r = uuid
                       then r\<lparr>users_password := password,
                              users_updated_on := updated_on_after_update e (users_updated_on r)\<rparr>
                       else r)
               (users db)\<rparr>))"

text \<open>
  Modelled from the spec: the schema is not among the sources. Section 4.3 of the
  specification has the grant fail when the association already exists, so the
  \<open>INSERT INTO user_roles\<close> is refused for a pair that is already in the table.
\<close>

definition exec_INSERT_USER_ROLE :: "database \<Rightarrow> string \<Rightarrow> string \<Rightarrow> error + database" where
  "exec_INSERT_USER_ROLE db user_uuid role_uuid =
     (if \<not> reachable db then Inl ErrDriver
      else if list_ex (\<lambda>r. user_roles_user_uuid r = user_uuid \<and> user_roles_role_uuid r = role_uuid)
                (user_roles db)
      then Inl ErrDriver
      else Inr (db\<lparr>user_roles := user_roles db @
             [\<lparr>user_roles_user_uuid = user_uuid, user_roles_role_uuid = role_uuid\<rparr>]\<rparr>))"

section \<open>Looking accounts up\<close>

text \<open>
  Each lookup returns, beside its result, the statements it ran against the store,
  in order: which key was queried, with which argument.
\<close>

datatype lookup = ByUsername string | ByEmail string | ByUuid string

text \<open>\<open>email\<close> is a \<open>*mail.Address\<close>: \<open>None\<close> is the nil pointer.\<close>

definition FindUserByEmail :: "database \<Rightarrow> string option \<Rightarrow> (error + AuthUser) \<times> lookup list" where
  "FindUserByEmail db email =
     (case email of
        None \<Rightarrow> (Inl (Errorf ''no email address''), [])
      | Some address \<Rightarrow>
          (case Scan (QueryRow db (users db) (\<lambda>r. users_email r = address)) (replicate 8 ByPointer) of
             Inl err \<Rightarrow> (Inl err, [ByEmail address])
           | Inr r \<Rightarrow>
               (Inr (NewAuthUser (users_uuid r) (users_first_name r) (users_last_name r)
                       (users_username r) address (users_password r) (users_email_verified r)
                       (users_can_signin r) (users_updated_on r)),
                [ByEmail address])))"

definition FindUserByUsername :: "env \<Rightarrow> database \<Rightarrow> string \<Rightarrow> (error + AuthUser) \<times> lookup list" where
  "FindUserByUsername e db username =
     (case CheckUsername username of
        Some err \<Rightarrow> (Inl err, [])
      | None \<Rightarrow>
          (case Scan (QueryRow db (users db) (\<lambda>r. users_username r = username)) (replicate 8 ByPointer) of
             Inl _ \<Rightarrow>
               (case ParseAddress e username of
                  Inl err \<Rightarrow> (Inl err, [ByUsername username])
                | Inr address \<Rightarrow>
                    (fst (FindUserByEmail db (Some address)),
                     ByUsername username # snd (FindUserByEmail db (Some address))))
           | Inr r \<Rightarrow>
               (Inr (NewAuthUser (users_uuid r) (users_first_name r) (users_last_name r)
                       username (users_email r) (users_password r) (users_email_verified r)
                       (users_can_signin r) (users_updated_on r)),
                [ByUsername username])))"

definition FindUserByUuid :: "database \<Rightarrow> string \<Rightarrow> (error + AuthUser) \<times> lookup list" where
  "FindUserByUuid db uuid =
     (case Scan (QueryRow db (users db) (\<lambda>r. users_uuid r = uuid)) (replicate 8 ByPointer) of
        Inl err \<Rightarrow> (Inl err, [ByUuid uuid])
      | Inr r \<Rightarrow>
          (Inr (NewAuthUser uuid (users_first_name r) (users_last_name r) (users_username r)
                  (users_email r) (users_password r) (users_email_verified r)
                  (users_can_signin r) (users_updated_on r)),
           [ByUuid uuid]))"

definition FindUserById :: "env \<Rightarrow> database \<Rightarrow> string \<Rightarrow> (error + AuthUser) \<times> lookup list" where
  "FindUserById e db ident =
     (case FindUserByUsername e db ident of
        (Inr authUser, l1) \<Rightarrow> (Inr authUser, l1)
      | (Inl _, l1) \<Rightarrow>
          (case ParseAddress e ident of
             Inr email \<Rightarrow>
               (case FindUserByEmail db (Some email) of
                  (Inr authUser, l2) \<Rightarrow> (Inr authUser, l1 @ l2)
                | (Inl _, l2) \<Rightarrow>
                    (fst (FindUserByUuid db ident), l1 @ l2 @ snd (FindUserByUuid db ident)))
           | Inl _ \<Rightarrow> (fst (FindUserByUuid db ident), l1 @ snd (FindUserByUuid db ident))))"

text \<open>
  The resolver as the specification words it: an ordered list of strategies, the
  email strategy present only when the token parses as an address, and the result
  of the first strategy that succeeds (the last failure when none does). The list
  of strategies is never empty; \<open>first_success []\<close> is given a value only to make
  the function total.
\<close>

fun first_success :: "(error + 'a) list \<Rightarrow> error + 'a" where
  "first_success [] = Inl ErrNoRows"
| "first_success [r] = r"
| "first_success (Inr v # rs) = Inr v"
| "first_success (Inl _ # rs) = first_success rs"

definition ResolveIdentifier_strategies :: "env \<Rightarrow> database \<Rightarrow> string \<Rightarrow> (error + AuthUser) list" where
  "ResolveIdentifier_strategies e db token =
     [fst (FindUserByUsername e db token)] @
     (case ParseAddress e token of
        Inr address \<Rightarrow> [fst (FindUserByEmail db (Some address))]
      | Inl _ \<Rightarrow> []) @
     [fst (FindUserByUuid db token)]"

definition ResolveIdentifier_spec :: "env \<Rightarrow> database \<Rightarrow> string \<Rightarrow> error + AuthUser" where
  "ResolveIdentifier_spec e db token = first_success (ResolveIdentifier_strategies e db token)"




section \<open>Roles\<close>

record Permission =
  Permission_Uuid :: string
  Permission_Name :: string

record Role =
  Role_Uuid :: string
  Role_Name :: string
  Role_Permissions :: "Permission list"

text \<open>
  \<open>Roles\<close> and \<open>UserRoles\<close> read every row of their query, ordered by role name, and
  scan each through \<open>&role.Uuid, &role.Name\<close>. The query of \<open>UserRoles\<close> joins
  \<open>user_roles\<close> with \<open>roles\<close> for one user.
\<close>

definition scan_roles :: "roles_row list \<Rightarrow> dest list \<Rightarrow> error + Role list" where
  "scan_roles rows dests =
     (if rows \<noteq> [] \<and> \<not> list_all (\<lambda>d. d = ByPointer) dests then Inl ErrDestinationNotAPointer
      else Inr (map (\<lambda>r. \<lparr>Role_Uuid = roles_uuid r, Role_Name = roles_name r, Role_Permissions = []\<rparr>) rows))"

definition Roles :: "database \<Rightarrow> error + Role list" where
  "Roles db =
     (if \<not> reachable db then Inl ErrDriver
      else scan_roles (sort_key roles_name (roles db)) [ByPointer, ByPointer])"

definition UserRoles :: "database \<Rightarrow> AuthUser \<Rightarrow> error + Role list" where
  "UserRoles db user =
     (if \<not> reachable db then Inl ErrDriver
      else scan_roles
             (sort_key roles_name
                (concat (map (\<lambda>ur. filter (\<lambda>r. user_roles_user_uuid ur = Uuid user \<and>
                                               roles_uuid r = user_roles_role_uuid ur) (roles db))
                           (user_roles db))))
             [ByPointer, ByPointer])"

text \<open>
  \<open>Role\<close> scans the single row of its query through \<open>role.Uuid, role.Name\<close>: the two
  strings themselves, not their addresses. Were the scan to succeed, nothing could
  have been written to \<open>role\<close>, which would still hold its zero value.
\<close>

definition Role :: "database \<Rightarrow> string \<Rightarrow> error + Role" where
  "Role db name =
     (case Scan (QueryRow db (roles db) (\<lambda>r. roles_name r = name)) [ByValue, ByValue] of
        Inl err \<Rightarrow> Inl err
      | Inr _ \<Rightarrow> Inr \<lparr>Role_Uuid = [], Role_Name = [], Role_Permissions = []\<rparr>)"

definition AddUserRole :: "database \<Rightarrow> AuthUser \<Rightarrow> string \<Rightarrow> error option \<times> database" where
  "AddUserRole db user role =
     (case Role db role of
        Inl _ \<Rightarrow> (Some (Errorf (role @ '' role not available'')), db)
      | Inr r \<Rightarrow>
          (case exec_INSERT_USER_ROLE db (Uuid user) (Role_Uuid r) of
             Inl _ \<Rightarrow> (Some (Errorf (role @ '' role not available'')), db)
           | Inr db' \<Rightarrow> (None, db')))"

section \<open>Changing the password\<close>

definition SetPassword ::
  "env \<Rightarrow> string \<Rightarrow> database \<Rightarrow> string \<Rightarrow> string \<Rightarrow> (error option \<times> database) outcome"
where
  "SetPassword e salt db uuid password =
     (case CheckPassword password of
        Some err \<Rightarrow> Returns (Some err, db)
      | None \<Rightarrow>
          (case HashPassword e salt password of
             Fatal err \<Rightarrow> Fatal err
           | Returns hash \<Rightarrow>
               (case exec_SET_PASSWORD_SQL e db hash uuid of
                  Inl _ \<Rightarrow> Returns (Some (Errorf ''could not update password''), db)
                | Inr db' \<Rightarrow> Returns (None, db'))))"

section \<open>Registration\<close>

text \<open>
  Modelled from the spec: the declaration of \<open>SignupReq\<close> and its method
  \<open>HashedPassword\<close> are not among the sources. \<open>CreateStandardUser\<close> reads the four
  fields below; section 4.3 of the specification stores the hash of the plaintext
  password, so \<open>HashedPassword\<close> is \<open>HashPassword\<close> of the \<open>Password\<close> field.
\<close>

record SignupReq =
  Signup_FirstName :: string
  Signup_LastName :: string
  Signup_Email :: string
  Signup_Password :: string

definition SignupReq_HashedPassword :: "env \<Rightarrow> string \<Rightarrow> SignupReq \<Rightarrow> string outcome" where
  "SignupReq_HashedPassword e salt user = HashPassword e salt (Signup_Password user)"

definition already_registered :: error where
  "already_registered = Errorf ''user already registered:please sign up with another email address''"

text \<open>
  \<open>new_uuid\<close> is the value \<open>Uuid()\<close> draws and \<open>salt\<close> the salt of the one hash the
  call computes. The arguments of the \<open>INSERT\<close> are evaluated before it runs, so a
  fatal \<open>HashedPassword\<close> leaves the store as it was. The result of \<open>AddUserRole\<close> is
  dropped: only the store it leaves is kept.
\<close>

definition CreateStandardUser ::
  "env \<Rightarrow> string \<Rightarrow> string \<Rightarrow> database \<Rightarrow> SignupReq \<Rightarrow> ((error + AuthUser) \<times> database) outcome"
where
  "CreateStandardUser e new_uuid salt db user =
     (case CheckPassword (Signup_Password user) of
        Some err \<Rightarrow> Returns (Inl err, db)
      | None \<Rightarrow>
          (case ParseAddress e (Signup_Email user) of
             Inl err \<Rightarrow> Returns (Inl err, db)
           | Inr email \<Rightarrow>
               (case fst (FindUserByEmail db (Some email)) of
                  Inl _ \<Rightarrow>
                    (case SignupReq_HashedPassword e salt user of
                       Fatal err \<Rightarrow> Fatal err
                     | Returns hash \<Rightarrow>
                         (case exec_CREATE_USER_SQL e db new_uuid (Signup_FirstName user)
                                 (Signup_LastName user) email email hash of
                            Inl err \<Rightarrow> Returns (Inl err, db)
                          | Inr db1 \<Rightarrow>
                              (case fst (FindUserByEmail db1 (Some email)) of
                                 Inl err \<Rightarrow> Returns (Inl err, db1)
                               | Inr authUser \<Rightarrow>
                                   Returns (Inr authUser,
                                            snd (AddUserRole db1 authUser STANDARD_ROLE)))))
                | Inr authUser \<Rightarrow>
                    if EmailVerified authUser then Returns (Inl already_registered, db)
                    else
                      (case SetPassword e salt db (Uuid authUser) (Signup_Password user) of
                         Fatal err \<Rightarrow> Fatal err
                       | Returns (Some _, db1) \<Rightarrow> Returns (Inl already_registered, db1)
                       | Returns (None, db1) \<Rightarrow>
                           Returns (Inr authUser,
                                    snd (AddUserRole db1 authUser STANDARD_ROLE))))))"

text \<open>
  The two ways a call reaches the role grant, with the account and the store it
  reaches it with: no account was found, the new row was inserted and read back
  (the terminal state \<open>Created\<close> of the specification); or an account was found
  whose email is not verified, and its password was replaced (\<open>Reissued\<close>).
\<close>

definition reaches_role_grant ::
  "env \<Rightarrow> string \<Rightarrow> string \<Rightarrow> database \<Rightarrow> SignupReq \<Rightarrow> AuthUser \<Rightarrow> database \<Rightarrow> bool"
where
  "reaches_role_grant e new_uuid salt db user authUser db1 =
     (CheckPassword (Signup_Password user) = None \<and>
      (case ParseAddress e (Signup_Email user) of
         Inl _ \<Rightarrow> False
       | Inr email \<Rightarrow>
           (case fst (FindUserByEmail db (Some email)) of
              Inl _ \<Rightarrow>
                (case SignupReq_HashedPassword e salt user of
                   Fatal _ \<Rightarrow> False
                 | Returns hash \<Rightarrow>
                     exec_CREATE_USER_SQL e db new_uuid (Signup_FirstName user)
                       (Signup_LastName user) email email hash = Inr db1 \<and>
                     fst (FindUserByEmail db1 (Some email)) = Inr authUser)
            | Inr found \<Rightarrow>
                found = authUser \<and> \<not> EmailVerified found \<and>
                SetPassword e salt db (Uuid found) (Signup_Password user) = Returns (None, db1))))"

section \<open>The public view of roles and permissions\<close>

text \<open>
  A row of \<open>USER_ROLE_PERMISSIONS_SQL\<close>, and the loop of \<open>PublicUserRolePermissions\<close>
  over the rows. \<open>currentRole\<close> starts as the empty string and \<open>ret\<close> as the empty
  slice; \<open>ret[idx]\<close> with \<open>idx = len(ret) - 1\<close> is a runtime panic when \<open>ret\<close> is
  still empty.
\<close>

record rp_row =
  rp_role_uuid :: string
  rp_role_name :: string
  rp_permission_uuid :: string
  rp_permission_name :: string

record PublicRole =
  Name :: string
  Permissions :: "string list"

fun group_rows :: "rp_row list \<Rightarrow> string \<Rightarrow> PublicRole list \<Rightarrow> PublicRole list outcome" where
  "group_rows [] currentRole ret = Returns ret"
| "group_rows (row # rows) currentRole ret =
     (let ret1 = (if rp_role_uuid row \<noteq> currentRole
                  then ret @ [\<lparr>Name = rp_role_name row, Permissions = []\<rparr>] else ret);
          currentRole1 = (if rp_role_uuid row \<noteq> currentRole then rp_role_uuid row else currentRole);
          idx = int (length ret1) - 1
      in if idx < 0 then Fatal ErrIndexOutOfRange
         else group_rows rows currentRole1
                (ret1[nat idx := (ret1 ! nat idx)
                   \<lparr>Permissions := Permissions (ret1 ! nat idx) @ [rp_permission_name row]\<rparr>]))"


text \<open>
  The view as the specification words it: the rows cut into their maximal runs of
  equal role id, one group per run, named after the run's role and holding the run's
  permission names in the order of the rows.
\<close>

function role_runs :: "rp_row list \<Rightarrow> rp_row list list" where
  "role_runs [] = []"
| "role_runs (r # rs) =
     (r # takeWhile (\<lambda>x. rp_role_uuid x = rp_role_uuid r) rs) #
     role_runs (dropWhile (\<lambda>x. rp_role_uuid x = rp_role_uuid r) rs)"
  by pat_completeness auto
termination
  by (relation "measure length") (auto simp: length_dropWhile_le less_Suc_eq_le)






section \<open>Opening the store\<close>

text \<open>
  The statements of the package, by name. \<open>NewUserDB\<close> opens the file and prepares
  twelve of them in the order of its struct literal, each call wrapped in
  \<open>sys.Must\<close>; its own error result is always \<open>nil\<close>.
\<close>

datatype statement =
    FIND_USER_BY_UUID_SQL | FIND_USER_BY_EMAIL_SQL | FIND_USER_BY_USERNAME_SQL
  | ROLES_SQL | USER_ROLE_PERMISSIONS_SQL | USER_PERMISSIONS_SQL | CREATE_USER_SQL
  | SET_EMAIL_VERIFIED_SQL | SET_PASSWORD_SQL | SET_USERNAME_SQL | SET_NAME_SQL
  | SET_INFO_SQL | SET_EMAIL_SQL




section \<open>An example environment and an example store\<close>

text \<open>
  The concrete inputs of the examples below. The example mail parser accepts a
  bare \<open>local@domain\<close> token over the username alphabet, as \<open>mail.ParseAddress\<close>
  does, and gives it back as the address; it refuses a token with no \<open>@\<close>. The
  example hash is the salt, padded or cut to 22 bytes, followed by the password:
  not a hash anyone should use, but one that meets \<open>bcrypt_contract\<close> and
  \<open>bcrypt_rejects_long\<close>. The example store runs every statement as written and has
  no hook on updates.
\<close>

definition example_ParseAddress :: "string \<Rightarrow> error + string" where
  "example_ParseAddress s =
     (if USERNAME_REGEX s \<and> count_list s CHR ''@'' = 1 \<and> hd s \<noteq> CHR ''@'' \<and> last s \<noteq> CHR ''@''
      then Inr s else Inl (ErrLibrary ''mail: missing @ or angle-addr''))"

definition example_GenerateFromPassword :: "string \<Rightarrow> string \<Rightarrow> error + string" where
  "example_GenerateFromPassword salt password =
     (if 72 < length password then Inl ErrPasswordTooLong
      else Inr (take 22 (salt @ ''......................'') @ password))"

definition example_CompareHashAndPassword :: "string \<Rightarrow> string \<Rightarrow> error option" where
  "example_CompareHashAndPassword hash password =
     (if 22 \<le> length hash \<and> drop 22 hash = password then None
      else Some (ErrLibrary ''crypto/bcrypt: hashedPassword is not the hash of the given password''))"

definition example_env :: env where
  "example_env =
     \<lparr>ParseAddress = example_ParseAddress,
      GenerateFromPassword = example_GenerateFromPassword,
      CompareHashAndPassword = example_CompareHashAndPassword,
      default_email_verified = False,
      default_can_signin = True,
      default_updated_on = 1700000000,
      updated_on_after_update = (\<lambda>old. old)\<rparr>"

definition grace :: users_row where
  "grace =
     \<lparr>users_uuid = ''u-grace'', users_first_name = ''Grace'', users_last_name = ''Hopper'',
      users_username = ''grace'', users_email = ''grace@example.com'',
      users_password = ''......................cobol4ever'',
      users_email_verified = True, users_can_signin = True, users_updated_on = 1600000000\<rparr>"

definition alan :: users_row where
  "alan =
     \<lparr>users_uuid = ''u-alan'', users_first_name = ''Alan'', users_last_name = ''Turing'',
      users_username = ''alan@example.com'', users_email = ''alan@example.com'',
      users_password = ''......................enigma1942'',
      users_email_verified = False, users_can_signin = True, users_updated_on = 1650000000\<rparr>"

definition example_db :: database where
  "example_db =
     \<lparr>reachable = True,
      users = [grace, alan],
      roles = [\<lparr>roles_uuid = ''r-admin'', roles_name = ''Admin''\<rparr>,
               \<lparr>roles_uuid = ''r-standard'', roles_name = ''Standard''\<rparr>],
      user_roles = []\<rparr>"

definition ada_signup :: SignupReq where
  "ada_signup =
     \<lparr>Signup_FirstName = ''Ada'', Signup_LastName = ''Lovelace'',
      Signup_Email = ''ada@example.com'', Signup_Password = ''analytical1''\<rparr>"

text \<open>
  The account of Alan as the lookups read it from the example store, a one-time code
  made from it, and an environment whose store stamps every updated row with the
  clock's reading.
\<close>

definition alan_account :: AuthUser where
  "alan_account =
     \<lparr>Uuid = ''u-alan'', FirstName = ''Alan'', LastName = ''Turing'',
      Username = ''alan@example.com'', Email = ''alan@example.com'',
      HashedPassword = ''......................enigma1942'',
      EmailVerified = False, CanSignIn = True, Updated = 1650000000\<rparr>"

definition alan_otp :: string where
  "alan_otp = ''otp-salt..............1650000000''"

definition stamping_env :: env where
  "stamping_env = example_env\<lparr>updated_on_after_update := (\<lambda>old. 1700000500)\<rparr>"

definition alan_new_hash :: string where
  "alan_new_hash = ''pw-salt...............bombe1940!''"

text \<open>
  Signup requests: Ada is new to the store; Grace, whose email is verified, sends
  one with a short password and one with a valid password; Alan, whose email is
  not verified, signs up again.
\<close>

definition ada_row :: users_row where
  "ada_row =
     \<lparr>users_uuid = ''u-ada'', users_first_name = ''Ada'', users_last_name = ''Lovelace'',
      users_username = ''ada@example.com'', users_email = ''ada@example.com'',
      users_password = ''salt..................analytical1'',
      users_email_verified = False, users_can_signin = True, users_updated_on = 1700000000\<rparr>"

definition ada_account :: AuthUser where
  "ada_account =
     \<lparr>Uuid = ''u-ada'', FirstName = ''Ada'', LastName = ''Lovelace'',
      Username = ''ada@example.com'', Email = ''ada@example.com'',
      HashedPassword = ''salt..................analytical1'',
      EmailVerified = False, CanSignIn = True, Updated = 1700000000\<rparr>"

definition grace_account :: AuthUser where
  "grace_account =
     \<lparr>Uuid = ''u-grace'', FirstName = ''Grace'', LastName = ''Hopper'',
      Username = ''grace'', Email = ''grace@example.com'',
      HashedPassword = ''......................cobol4ever'',
      EmailVerified = True, CanSignIn = True, Updated = 1600000000\<rparr>"

definition grace_signup_short :: SignupReq where
  "grace_signup_short =
     \<lparr>Signup_FirstName = ''Grace'', Signup_LastName = ''Hopper'',
      Signup_Email = ''grace@example.com'', Signup_Password = ''short''\<rparr>"

definition grace_signup :: SignupReq where
  "grace_signup =
     \<lparr>Signup_FirstName = ''Grace'', Signup_LastName = ''Hopper'',
      Signup_Email = ''grace@example.com'', Signup_Password = ''compiler1952''\<rparr>"

definition alan_signup :: SignupReq where
  "alan_signup =
     \<lparr>Signup_FirstName = ''Alan'', Signup_LastName = ''Turing'',
      Signup_Email = ''alan@example.com'', Signup_Password = ''bombe1940!''\<rparr>"



section \<open>Facts about the credential codec\<close>








section \<open>Facts about the store and the lookups\<close>

lemma Scan_pointers:
  "Scan row (replicate n ByPointer) =
     (case row of Inl err \<Rightarrow> Inl err | Inr None \<Rightarrow> Inl ErrNoRows | Inr (Some r) \<Rightarrow> Inr r)"
  by (simp add: Scan_def list_all_iff split: sum.splits option.splits)




section \<open>Facts about the examples\<close>



lemmas example_simps =
  example_env_def stamping_env_def example_db_def grace_def alan_def alan_account_def
  alan_otp_def alan_new_hash_def ada_signup_def ada_row_def ada_account_def grace_account_def
  grace_signup_short_def grace_signup_def alan_signup_def example_ParseAddress_def example_GenerateFromPassword_def
  example_CompareHashAndPassword_def

lemmas validator_simps =
  CheckPassword_def CheckUsername_def PASSWORD_REGEX_def USERNAME_REGEX_def
  MIN_PASSWORD_LENGTH_def MIN_NAME_LENGTH_def letters_def digits_def





lemma alan_SetPassword:
  "SetPassword example_env ''pw-salt'' example_db ''u-alan'' ''bombe1940!'' =
     Returns (None, example_db\<lparr>users :=
       [grace, alan\<lparr>users_password := alan_new_hash\<rparr>]\<rparr>)"
  by (simp add: SetPassword_def HashPassword_def exec_SET_PASSWORD_SQL_def validator_simps
      example_simps)

lemma grace_by_email:
  "fst (FindUserByEmail example_db (Some ''grace@example.com'')) = Inr grace_account"
  by (simp add: FindUserByEmail_def Scan_pointers QueryRow_def NewAuthUser_def example_simps)

lemma example_parse_grace: "ParseAddress example_env ''grace@example.com'' = Inr ''grace@example.com''"
  by (simp add: example_simps validator_simps)

lemma example_parse_ada: "ParseAddress example_env ''ada@example.com'' = Inr ''ada@example.com''"
  by (simp add: example_simps validator_simps)

lemma example_parse_alan: "ParseAddress example_env ''alan@example.com'' = Inr ''alan@example.com''"
  by (simp add: example_simps validator_simps)

lemma ada_reaches_role_grant:
  "reaches_role_grant example_env ''u-ada'' ''salt'' example_db ada_signup ada_account
     (example_db\<lparr>users := [grace, alan, ada_row]\<rparr>)"
  using example_parse_ada
  by (simp add: reaches_role_grant_def FindUserByEmail_def Scan_pointers QueryRow_def
      NewAuthUser_def SignupReq_HashedPassword_def HashPassword_def exec_CREATE_USER_SQL_def
      validator_simps example_simps)

lemma alan_by_email:
  "fst (FindUserByEmail example_db (Some ''alan@example.com'')) = Inr alan_account"
  by (simp add: FindUserByEmail_def Scan_pointers QueryRow_def NewAuthUser_def example_simps)

lemma alan_reaches_role_grant:
  "reaches_role_grant example_env ''u-new'' ''pw-salt'' example_db alan_signup alan_account
     (example_db\<lparr>users := [grace, alan\<lparr>users_password := alan_new_hash\<rparr>]\<rparr>)"
proof -
  have "SetPassword example_env ''pw-salt'' example_db (Uuid alan_account) (Signup_Password alan_signup) =
     Returns (None, example_db\<lparr>users := [grace, alan\<lparr>users_password := alan_new_hash\<rparr>]\<rparr>)"
    using alan_SetPassword by (simp add: alan_account_def alan_signup_def)
  moreover have "CheckPassword (Signup_Password alan_signup) = None"
    by (simp add: alan_signup_def validator_simps)
  moreover have "ParseAddress example_env (Signup_Email alan_signup) = Inr ''alan@example.com''"
    using example_parse_alan by (simp add: alan_signup_def)
  moreover have "\<not> EmailVerified alan_account" by (simp add: alan_account_def)
  ultimately show ?thesis
    using alan_by_email by (simp add: reaches_role_grant_def)
qed

lemma nobody_FindUserById:
  "FindUserById example_env example_db ''nobody@example.com'' =
     (Inl ErrNoRows,
      [ByUsername ''nobody@example.com'', ByEmail ''nobody@example.com'',
       ByEmail ''nobody@example.com'', ByUuid ''nobody@example.com''])"
  by (simp add: FindUserById_def FindUserByUsername_def FindUserByEmail_def FindUserByUuid_def
      Scan_pointers QueryRow_def validator_simps example_simps)






section \<open>Facts about role lookup\<close>

lemma Scan_ByValue: "\<exists>err. Scan row [ByValue, ByValue] = Inl err"
  by (auto simp: Scan_def split: sum.splits option.splits)

lemma Role_Inl: "\<exists>err. Role db name = Inl err"
  using Scan_ByValue [of "QueryRow db (roles db) (\<lambda>r. roles_name r = name)"]
  by (auto simp: Role_def)

lemma AddUserRole_fails:
  "AddUserRole db user role = (Some (Errorf (role @ '' role not available'')), db)"
  using Role_Inl [of db role] by (auto simp: AddUserRole_def)

lemma Standard_role_not_available:
  "AddUserRole db user STANDARD_ROLE = (Some (Errorf ''Standard role not available''), db)"
  by (simp add: AddUserRole_fails STANDARD_ROLE_def)

text \<open>No call of \<open>CreateStandardUser\<close> that returns changes the roles or who holds them.\<close>

lemma exec_CREATE_USER_SQL_roles:
  "exec_CREATE_USER_SQL e db uuid f l u m p = Inr db' \<Longrightarrow>
     user_roles db' = user_roles db \<and> roles db' = roles db"
  by (auto simp: exec_CREATE_USER_SQL_def split: if_splits)

lemma exec_SET_PASSWORD_SQL_roles:
  "exec_SET_PASSWORD_SQL e db hash uuid = Inr db' \<Longrightarrow>
     user_roles db' = user_roles db \<and> roles db' = roles db"
  by (auto simp: exec_SET_PASSWORD_SQL_def split: if_splits)

lemma SetPassword_roles:
  "SetPassword e salt db uuid password = Returns (res, db') \<Longrightarrow>
     user_roles db' = user_roles db \<and> roles db' = roles db"
  by (auto simp: SetPassword_def split: option.splits outcome.splits sum.splits
      dest: exec_SET_PASSWORD_SQL_roles)

lemma CreateStandardUser_grants_nothing:
  "CreateStandardUser e new_uuid salt db user = Returns (res, db') \<Longrightarrow>
     user_roles db' = user_roles db \<and> roles db' = roles db"
  by (auto simp: CreateStandardUser_def Standard_role_not_available
      split: option.splits outcome.splits sum.splits if_splits prod.splits
      dest: exec_CREATE_USER_SQL_roles SetPassword_roles)

section \<open>Facts about identifier resolution\<close>

lemma first_success_Inr_iff:
  "rs \<noteq> [] \<Longrightarrow>
   (first_success rs = Inr v) =
     (\<exists>i < length rs. rs ! i = Inr v \<and> (\<forall>j < i. isl (rs ! j)))"
proof (induction rs rule: first_success.induct)
  case 1
  then show ?case by simp
next
  case (2 r)
  then show ?case by auto
next
  case (3 w r rs)
  show ?case
  proof
    assume "first_success (Inr w # r # rs) = Inr v"
    then have "(Inr w # r # rs) ! 0 = Inr v \<and> (\<forall>j < 0. isl ((Inr w # r # rs) ! j))" by simp
    then show "\<exists>i < length (Inr w # r # rs). (Inr w # r # rs) ! i = Inr v \<and>
        (\<forall>j < i. isl ((Inr w # r # rs) ! j))" by blast
  next
    assume "\<exists>i < length (Inr w # r # rs). (Inr w # r # rs) ! i = Inr v \<and>
        (\<forall>j < i. isl ((Inr w # r # rs) ! j))"
    then obtain i where i: "(Inr w # r # rs) ! i = Inr v" "\<forall>j < i. isl ((Inr w # r # rs) ! j)"
      by blast
    have "i = 0"
    proof (rule ccontr)
      assume "i \<noteq> 0"
      with i(2) have "isl ((Inr w # r # rs) ! 0)" by blast
      then show False by simp
    qed
    with i(1) show "first_success (Inr w # r # rs) = Inr v" by simp
  qed
next
  case (4 x r rs)
  then have IH: "(first_success (r # rs) = Inr v) =
     (\<exists>i < length (r # rs). (r # rs) ! i = Inr v \<and> (\<forall>j < i. isl ((r # rs) ! j)))" by simp
  show ?case
  proof
    assume "first_success (Inl x # r # rs) = Inr v"
    with IH obtain i where i: "i < length (r # rs)" "(r # rs) ! i = Inr v"
      "\<forall>j < i. isl ((r # rs) ! j)" by auto
    have "\<forall>j < Suc i. isl ((Inl x # r # rs) ! j)"
    proof (intro allI impI)
      fix j assume "j < Suc i"
      with i(3) show "isl ((Inl x # r # rs) ! j)" by (cases j) auto
    qed
    with i(1,2) have "Suc i < length (Inl x # r # rs) \<and> (Inl x # r # rs) ! Suc i = Inr v \<and>
      (\<forall>j < Suc i. isl ((Inl x # r # rs) ! j))" by simp
    then show "\<exists>i < length (Inl x # r # rs). (Inl x # r # rs) ! i = Inr v \<and>
        (\<forall>j < i. isl ((Inl x # r # rs) ! j))" by blast
  next
    assume "\<exists>i < length (Inl x # r # rs). (Inl x # r # rs) ! i = Inr v \<and>
        (\<forall>j < i. isl ((Inl x # r # rs) ! j))"
    then obtain i where i: "i < length (Inl x # r # rs)" "(Inl x # r # rs) ! i = Inr v"
      "\<forall>j < i. isl ((Inl x # r # rs) ! j)" by blast
    from i(2) obtain k where k: "i = Suc k" by (cases i) auto
    have "\<forall>j < k. isl ((r # rs) ! j)"
    proof (intro allI impI)
      fix j assume "j < k"
      with k i(3) have "isl ((Inl x # r # rs) ! Suc j)" by blast
      then show "isl ((r # rs) ! j)" by simp
    qed
    with i(1,2) k have "k < length (r # rs) \<and> (r # rs) ! k = Inr v \<and> (\<forall>j < k. isl ((r # rs) ! j))"
      by simp
    with IH have "first_success (r # rs) = Inr v" by blast
    then show "first_success (Inl x # r # rs) = Inr v" by simp
  qed
qed

lemma first_success_Inl: "first_success rs = Inl err \<Longrightarrow> list_all isl rs"
  by (induction rs rule: first_success.induct) auto

lemma FindUserByUuid_Inl:
  "fst (FindUserByUuid db uuid) = Inl err \<Longrightarrow> reachable db \<Longrightarrow> err = ErrNoRows"
  by (auto simp: FindUserByUuid_def Scan_pointers QueryRow_def split: option.splits)

lemma FindUserById_eq_spec:
  "fst (FindUserById e db token) = ResolveIdentifier_spec e db token"
  by (cases "fst (FindUserByUsername e db token)"; cases "ParseAddress e token";
      cases "fst (FindUserByEmail db (Some (projr (ParseAddress e token))))")
    (auto simp: FindUserById_def ResolveIdentifier_spec_def ResolveIdentifier_strategies_def
      split: prod.splits sum.splits)

lemma FindUserById_Inl_last:
  "fst (FindUserById e db token) = Inl err \<Longrightarrow> fst (FindUserByUuid db token) = Inl err"
  by (auto simp: FindUserById_def split: prod.splits sum.splits)

lemma FindUserByEmail_log:
  "snd (FindUserByEmail db email) = (case email of None \<Rightarrow> [] | Some address \<Rightarrow> [ByEmail address])"
  by (simp add: FindUserByEmail_def split: option.splits sum.splits)

lemma FindUserByEmail_logD: "FindUserByEmail db (Some address) = (r, l) \<Longrightarrow> l = [ByEmail address]"
  using FindUserByEmail_log [of db "Some address"] by simp

lemma FindUserByUuid_log: "snd (FindUserByUuid db uuid) = [ByUuid uuid]"
  by (simp add: FindUserByUuid_def split: sum.splits)




lemma FindUserById_attempts:
  "snd (FindUserById e db token) =
     snd (FindUserByUsername e db token) @
     (if isl (fst (FindUserByUsername e db token))
      then (case ParseAddress e token of
              Inr address \<Rightarrow>
                ByEmail address #
                (if isl (fst (FindUserByEmail db (Some address))) then [ByUuid token] else [])
            | Inl _ \<Rightarrow> [ByUuid token])
      else [])"
  by (cases "FindUserByUsername e db token")
    (auto simp: FindUserById_def FindUserByUuid_log
      split: prod.splits sum.splits dest!: FindUserByEmail_logD)

section \<open>Facts about fatal calls\<close>






section \<open>Facts about the grouping loop\<close>





lemma group_rows_empty_role_id:
  "rp_role_uuid r = [] \<Longrightarrow> group_rows (r # rs) [] [] = Fatal ErrIndexOutOfRange"
  by (simp add: Let_def)

lemma role_runs_concat: "concat (role_runs rows) = rows"
  by (induction rows rule: role_runs.induct) simp_all

lemma takeWhile_holds: "x \<in> set (takeWhile P xs) \<Longrightarrow> P x"
  by (induction xs) (auto split: if_split_asm)

lemma role_runs_constant:
  "run \<in> set (role_runs rows) \<Longrightarrow>
     run \<noteq> [] \<and> (\<forall>x \<in> set run. rp_role_uuid x = rp_role_uuid (hd run))"
proof (induction rows rule: role_runs.induct)
  case 1
  then show ?case by simp
next
  case (2 r rs)
  let ?tw = "takeWhile (\<lambda>x. rp_role_uuid x = rp_role_uuid r) rs"
  let ?dw = "dropWhile (\<lambda>x. rp_role_uuid x = rp_role_uuid r) rs"
  from "2.prems" have "run = r # ?tw \<or> run \<in> set (role_runs ?dw)" by simp
  then show ?case
  proof
    assume run: "run = r # ?tw"
    show ?thesis
    proof (intro conjI ballI)
      from run show "run \<noteq> []" by simp
    next
      fix x assume "x \<in> set run"
      with run have "x = r \<or> x \<in> set ?tw" by simp
      then have "rp_role_uuid x = rp_role_uuid r"
      proof
        assume "x = r"
        then show ?thesis by simp
      next
        assume "x \<in> set ?tw"
        then show ?thesis by (rule takeWhile_holds)
      qed
      with run show "rp_role_uuid x = rp_role_uuid (hd run)" by simp
    qed
  next
    assume "run \<in> set (role_runs ?dw)"
    then show ?thesis by (rule "2.IH")
  qed
qed

lemma role_runs_hd:
  "rows \<noteq> [] \<Longrightarrow> role_runs rows \<noteq> [] \<and> hd (hd (role_runs rows)) = hd rows"
  by (cases rows) simp_all

lemma role_runs_maximal:
  "successively (\<lambda>a b. rp_role_uuid (hd a) \<noteq> rp_role_uuid (hd b)) (role_runs rows)"
proof (induction rows rule: role_runs.induct)
  case 1
  then show ?case by simp
next
  case (2 r rs)
  let ?dw = "dropWhile (\<lambda>x. rp_role_uuid x = rp_role_uuid r) rs"
  show ?case
  proof (cases "?dw = []")
    case True
    then show ?thesis by (simp del: dropWhile_eq_Nil_conv)
  next
    case False
    with hd_dropWhile [of "\<lambda>x. rp_role_uuid x = rp_role_uuid r" rs]
    have "rp_role_uuid (hd ?dw) \<noteq> rp_role_uuid r" by simp
    with False role_runs_hd [of ?dw] "2.IH" show ?thesis
      by (auto simp: successively_Cons)
  qed
qed








section \<open>Password validation\<close>

text \<open>
  C7, as the code has it: a password of one to seven bytes is refused with the
  length error, whatever its characters; the empty password is exempt from the
  length test and passes.
\<close>

theorem CheckPassword_short_nonempty:
  "password \<noteq> [] \<Longrightarrow> length password < 8 \<Longrightarrow>
     CheckPassword password = Some (Errorf ''password must be at least 8 characters'')"
  by (simp add: CheckPassword_def MIN_PASSWORD_LENGTH_def)

theorem CheckPassword_short_nonempty_witness:
  "''abc'' \<noteq> [] \<and> length ''abc'' < 8 \<and>
     CheckPassword ''abc'' = Some (Errorf ''password must be at least 8 characters'')"
  using CheckPassword_short_nonempty [of "''abc''"] by simp

theorem CheckPassword_empty_counterexample:
  "length ([] :: string) < 8 \<and> CheckPassword [] = None"
  by (simp add: CheckPassword_def PASSWORD_REGEX_def)

section \<open>Registration with a new email\<close>

text \<open>
  C1 at a concrete signup. Ada's email is not in the example store, her password
  is valid, and the store holds a role named \<open>Standard\<close> (\<open>Roles\<close>, which scans
  through pointers, lists it). \<open>CreateStandardUser\<close> creates her account with
  \<open>email_verified\<close> false, but the grant goes through \<open>Role\<close>, whose scan cannot
  succeed: after the call the account holds no role. By
  \<open>CreateStandardUser_grants_nothing\<close> this is so for every call that returns.
\<close>

theorem CreateStandardUser_new_account_holds_no_role:
  "CreateStandardUser example_env ''u-ada'' ''salt'' example_db ada_signup =
     Returns (Inr ada_account, example_db\<lparr>users := [grace, alan, ada_row]\<rparr>) \<and>
   EmailVerified ada_account = False \<and>
   Roles example_db =
     Inr [\<lparr>Role_Uuid = ''r-admin'', Role_Name = ''Admin'', Role_Permissions = []\<rparr>,
          \<lparr>Role_Uuid = ''r-standard'', Role_Name = ''Standard'', Role_Permissions = []\<rparr>] \<and>
   user_roles (example_db\<lparr>users := [grace, alan, ada_row]\<rparr>) = [] \<and>
   UserRoles (example_db\<lparr>users := [grace, alan, ada_row]\<rparr>) ada_account = Inr []"
proof -
  have "CreateStandardUser example_env ''u-ada'' ''salt'' example_db ada_signup =
     Returns (Inr ada_account,
       snd (AddUserRole (example_db\<lparr>users := [grace, alan, ada_row]\<rparr>) ada_account STANDARD_ROLE))"
    using ada_reaches_role_grant
    by (auto simp: reaches_role_grant_def CreateStandardUser_def split: sum.splits outcome.splits)
  moreover have "Roles example_db =
     Inr [\<lparr>Role_Uuid = ''r-admin'', Role_Name = ''Admin'', Role_Permissions = []\<rparr>,
          \<lparr>Role_Uuid = ''r-standard'', Role_Name = ''Standard'', Role_Permissions = []\<rparr>]"
    by (simp add: Roles_def scan_roles_def example_db_def)
  ultimately show ?thesis
    by (simp add: Standard_role_not_available UserRoles_def scan_roles_def example_db_def
        ada_account_def)
qed

section \<open>Password changes and one-time codes\<close>




section \<open>Resolving an identifier\<close>

text \<open>
  C3. \<open>FindUserById\<close> returns what the ordered strategies of the specification
  return: the username lookup, the email lookup when the token parses as an
  address, the uuid lookup, and of these the first that succeeds. It fails only
  when every strategy it had has failed, and on a store that can be reached the
  failure is then \<open>sql.ErrNoRows\<close>, the not-found error of the uuid lookup.
  The lookups it runs are those of the username strategy; then, only if that
  failed, the email lookup when the token parses, and the uuid lookup when the
  email strategy was skipped or failed.
  By \<open>first_success_Inr_iff\<close>, the success of \<open>first_success\<close> is the success of
  a strategy all of whose predecessors failed.
\<close>

theorem FindUserById_first_success:
  "fst (FindUserById e db token) = ResolveIdentifier_spec e db token \<and>
   (\<forall>err. fst (FindUserById e db token) = Inl err \<longrightarrow>
      list_all isl (ResolveIdentifier_strategies e db token) \<and>
      (reachable db \<longrightarrow> err = ErrNoRows)) \<and>
   snd (FindUserById e db token) =
     snd (FindUserByUsername e db token) @
     (if isl (fst (FindUserByUsername e db token))
      then (case ParseAddress e token of
              Inr address \<Rightarrow>
                ByEmail address #
                (if isl (fst (FindUserByEmail db (Some address))) then [ByUuid token] else [])
            | Inl _ \<Rightarrow> [ByUuid token])
      else [])"
proof (intro conjI allI impI)
  show "fst (FindUserById e db token) = ResolveIdentifier_spec e db token"
    by (rule FindUserById_eq_spec)
next
  show "snd (FindUserById e db token) =
     snd (FindUserByUsername e db token) @
     (if isl (fst (FindUserByUsername e db token))
      then (case ParseAddress e token of
              Inr address \<Rightarrow>
                ByEmail address #
                (if isl (fst (FindUserByEmail db (Some address))) then [ByUuid token] else [])
            | Inl _ \<Rightarrow> [ByUuid token])
      else [])"
    by (rule FindUserById_attempts)
next
  fix err assume "fst (FindUserById e db token) = Inl err"
  then show "list_all isl (ResolveIdentifier_strategies e db token)"
    using first_success_Inl [of "ResolveIdentifier_strategies e db token" err]
    by (simp add: FindUserById_eq_spec ResolveIdentifier_spec_def)
next
  fix err assume "fst (FindUserById e db token) = Inl err" and "reachable db"
  then show "err = ErrNoRows"
    using FindUserById_Inl_last FindUserByUuid_Inl by blast
qed

theorem FindUserById_first_success_witness:
  "fst (FindUserById example_env example_db ''nobody@example.com'') =
     ResolveIdentifier_spec example_env example_db ''nobody@example.com'' \<and>
   fst (FindUserById example_env example_db ''nobody@example.com'') = Inl ErrNoRows \<and>
   reachable example_db \<and>
   list_all isl (ResolveIdentifier_strategies example_env example_db ''nobody@example.com'') \<and>
   length (ResolveIdentifier_strategies example_env example_db ''nobody@example.com'') = 3 \<and>
   snd (FindUserById example_env example_db ''nobody@example.com'') =
     snd (FindUserByUsername example_env example_db ''nobody@example.com'') @
     [ByEmail ''nobody@example.com'', ByUuid ''nobody@example.com'']"
proof -
  have f: "fst (FindUserById example_env example_db ''nobody@example.com'') = Inl ErrNoRows"
    by (simp add: nobody_FindUserById)
  have p: "ParseAddress example_env ''nobody@example.com'' = Inr ''nobody@example.com''"
    by (simp add: example_simps validator_simps)
  have r: "reachable example_db" by (simp add: example_db_def)
  have u: "isl (fst (FindUserByUsername example_env example_db ''nobody@example.com''))"
    and m: "isl (fst (FindUserByEmail example_db (Some ''nobody@example.com'')))"
    by (simp_all add: FindUserByUsername_def FindUserByEmail_def Scan_pointers QueryRow_def
        validator_simps example_simps)
  from FindUserById_first_success [of example_env example_db "''nobody@example.com''"] f r p u m
  show ?thesis by (simp add: ResolveIdentifier_strategies_def)
qed

section \<open>The lookups each function runs\<close>




section \<open>A failed role grant during registration\<close>

text \<open>
  C5, as the code has it. Whenever a call reaches the role grant, the grant fails
  (the role lookup cannot succeed), and \<open>CreateStandardUser\<close> returns the account
  with a nil error and the store as the grant found it. The error of \<open>AddUserRole\<close>
  is dropped: the result \<open>(*AuthUser, error)\<close> has no place for a warning, and the
  call returns what it would return had the grant succeeded.
\<close>

theorem CreateStandardUser_grant_error_dropped:
  assumes "reaches_role_grant e new_uuid salt db user authUser db1"
  shows "AddUserRole db1 authUser STANDARD_ROLE =
           (Some (Errorf ''Standard role not available''), db1) \<and>
         CreateStandardUser e new_uuid salt db user = Returns (Inr authUser, db1)"
proof -
  from assms have "CreateStandardUser e new_uuid salt db user =
      Returns (Inr authUser, snd (AddUserRole db1 authUser STANDARD_ROLE))"
    by (auto simp: reaches_role_grant_def CreateStandardUser_def
        split: sum.splits outcome.splits)
  then show ?thesis by (simp add: Standard_role_not_available)
qed

text \<open>Conversely, a call that returns an account has reached the role grant.\<close>

lemma CreateStandardUser_Inr_reaches:
  assumes "CreateStandardUser e new_uuid salt db user = Returns (Inr authUser, db')"
  shows "reaches_role_grant e new_uuid salt db user authUser db'"
  using assms
  by (auto simp: reaches_role_grant_def CreateStandardUser_def Standard_role_not_available
      split: sum.splits outcome.splits option.splits if_splits prod.splits)

theorem CreateStandardUser_grant_error_dropped_witness:
  "reaches_role_grant example_env ''u-ada'' ''salt'' example_db ada_signup ada_account
     (example_db\<lparr>users := [grace, alan, ada_row]\<rparr>) \<and>
   AddUserRole (example_db\<lparr>users := [grace, alan, ada_row]\<rparr>) ada_account STANDARD_ROLE =
     (Some (Errorf ''Standard role not available''), example_db\<lparr>users := [grace, alan, ada_row]\<rparr>) \<and>
   CreateStandardUser example_env ''u-ada'' ''salt'' example_db ada_signup =
     Returns (Inr ada_account, example_db\<lparr>users := [grace, alan, ada_row]\<rparr>)"
  using CreateStandardUser_grant_error_dropped [OF ada_reaches_role_grant] ada_reaches_role_grant
  by blast

text \<open>
  The claim as written fails where Alan signs up again: the grant of the Standard
  role fails, and the caller receives the account and a nil error, nothing else.
\<close>

theorem CreateStandardUser_grant_error_dropped_counterexample:
  "AddUserRole (example_db\<lparr>users := [grace, alan\<lparr>users_password := alan_new_hash\<rparr>]\<rparr>)
     alan_account STANDARD_ROLE =
     (Some (Errorf ''Standard role not available''),
      example_db\<lparr>users := [grace, alan\<lparr>users_password := alan_new_hash\<rparr>]\<rparr>) \<and>
   CreateStandardUser example_env ''u-new'' ''pw-salt'' example_db alan_signup =
     Returns (Inr alan_account, example_db\<lparr>users := [grace, alan\<lparr>users_password := alan_new_hash\<rparr>]\<rparr>)"
proof -
  have "CreateStandardUser example_env ''u-new'' ''pw-salt'' example_db alan_signup =
     Returns (Inr alan_account,
       snd (AddUserRole (example_db\<lparr>users := [grace, alan\<lparr>users_password := alan_new_hash\<rparr>]\<rparr>)
              alan_account STANDARD_ROLE))"
    using alan_reaches_role_grant
    by (auto simp: reaches_role_grant_def CreateStandardUser_def split: sum.splits outcome.splits)
  then show ?thesis by (simp add: Standard_role_not_available)
qed

section \<open>Registration with a verified email\<close>

text \<open>
  C6, as the code has it. \<open>CreateStandardUser\<close> checks the password before it looks
  the email up. When the password passes \<open>CheckPassword\<close>, the email parses, and the
  account found for the address has its email verified, the call fails with the
  already-registered error and the store is unchanged.
\<close>

theorem CreateStandardUser_already_registered:
  assumes "CheckPassword (Signup_Password user) = None"
    and "ParseAddress e (Signup_Email user) = Inr email"
    and "fst (FindUserByEmail db (Some email)) = Inr authUser"
    and "EmailVerified authUser"
  shows "CreateStandardUser e new_uuid salt db user = Returns (Inl already_registered, db)"
  using assms by (simp add: CreateStandardUser_def)

theorem CreateStandardUser_already_registered_witness:
  "CheckPassword (Signup_Password grace_signup) = None \<and>
   ParseAddress example_env (Signup_Email grace_signup) = Inr ''grace@example.com'' \<and>
   fst (FindUserByEmail example_db (Some ''grace@example.com'')) = Inr grace_account \<and>
   EmailVerified grace_account \<and>
   CreateStandardUser example_env ''u-new'' ''salt'' example_db grace_signup =
     Returns (Inl already_registered, example_db)"
proof -
  have 1: "CheckPassword (Signup_Password grace_signup) = None"
    by (simp add: grace_signup_def validator_simps)
  have 2: "ParseAddress example_env (Signup_Email grace_signup) = Inr ''grace@example.com''"
    using example_parse_grace by (simp add: grace_signup_def)
  have 4: "EmailVerified grace_account" by (simp add: grace_account_def)
  from CreateStandardUser_already_registered [OF 1 2 grace_by_email 4] 1 2 grace_by_email 4
  show ?thesis by simp
qed

text \<open>
  Without the condition on the password the claim fails: a request for Grace's
  verified email with a five-byte password is refused for its password, not as
  already registered.
\<close>

theorem CreateStandardUser_already_registered_counterexample:
  "ParseAddress example_env (Signup_Email grace_signup_short) = Inr ''grace@example.com'' \<and>
   fst (FindUserByEmail example_db (Some ''grace@example.com'')) = Inr grace_account \<and>
   EmailVerified grace_account \<and>
   CreateStandardUser example_env ''u-new'' ''salt'' example_db grace_signup_short =
     Returns (Inl (Errorf ''password must be at least 8 characters''), example_db) \<and>
   Errorf ''password must be at least 8 characters'' \<noteq> already_registered"
  using example_parse_grace grace_by_email
  by (simp add: CreateStandardUser_def grace_signup_short_def grace_account_def
      already_registered_def validator_simps)

section \<open>Grouping permissions by role\<close>




section \<open>Errors that end the process\<close>




section \<open>Looking a role up by name\<close>

text \<open>
  C10. \<open>Role\<close> passes \<open>Scan\<close> two strings instead of two pointers, so the scan
  fails whether or not a role of that name is in the store (with \<open>sql.ErrNoRows\<close>
  when there is none, with the destination error when there is one), and
  \<open>AddUserRole\<close> answers \<open>role not available\<close> for every account and every role
  name, leaving the store as it was.
\<close>

theorem Role_never_succeeds:
  "(\<exists>err. Role db name = Inl err) \<and>
   AddUserRole db user name = (Some (Errorf (name @ '' role not available'')), db)"
  using Role_Inl [of db name] AddUserRole_fails [of db user name] by blast

text \<open>The role \<open>Standard\<close> is in the example store, and still cannot be granted.\<close>

theorem Role_never_succeeds_witness:
  "find (\<lambda>r. roles_name r = ''Standard'') (roles example_db) =
     Some \<lparr>roles_uuid = ''r-standard'', roles_name = ''Standard''\<rparr> \<and>
   (\<exists>err. Role example_db ''Standard'' = Inl err) \<and>
   AddUserRole example_db alan_account ''Standard'' =
     (Some (Errorf ''Standard role not available''), example_db)"
  using Role_never_succeeds [of example_db "''Standard''" alan_account]
  by (simp add: example_db_def)

end
